theory Spec2Isabelle
  imports Main "HOL-Library.Word"
begin

unbundle bit_operations_syntax

section \<open>Buffers and the length-prefixed field encoding\<close>

text \<open>
  A Node \<open>Buffer\<close> is a sequence of bytes.  \<open>Buffer.slice (start, end)\<close> with
  non-negative arguments clamps both ends to the length of the buffer and never fails.
\<close>

type_synonym byte = "8 word"
type_synonym buffer = "byte list"

definition buffer_slice :: "buffer \<Rightarrow> nat \<Rightarrow> nat \<Rightarrow> buffer" where
  "buffer_slice buf start end = take (end - start) (drop start buf)"

text \<open>
  \<open>TopicManager.decodeOutputScript\<close>: the \<open>while (i < outputScript.length)\<close> loop,
  with the cursor \<open>i\<close> and the array \<open>fields\<close> it pushes to as arguments.
\<close>

function decode_loop :: "buffer \<Rightarrow> nat \<Rightarrow> buffer list \<Rightarrow> buffer list" where
  "decode_loop outputScript i fields =
     (if i < length outputScript then
        (let len = unat (outputScript ! i);
             field = buffer_slice outputScript (i + 1) (i + 1 + len)
         in decode_loop outputScript (i + 1 + len) (fields @ [field]))
      else fields)"
  by pat_completeness auto
termination
  by (relation "measure (\<lambda>(outputScript, i, fields). length outputScript - i)") auto

definition decodeOutputScript :: "buffer \<Rightarrow> buffer list" where
  "decodeOutputScript outputScript = decode_loop outputScript 0 []"

text \<open>
  \<open>createOutputScript\<close> of the test suite, on fields that are already buffers: each field
  is preceded by \<open>Buffer.from ([fieldBuffer.length])\<close>, a single byte holding the length
  modulo 256.
\<close>

definition createOutputScript :: "buffer list \<Rightarrow> buffer" where
  "createOutputScript fields = concat (map (\<lambda>fieldBuffer. of_nat (length fieldBuffer) # fieldBuffer) fields)"

text \<open>
  The same field sequence by recursion on the buffer itself: one length byte, then as many
  bytes as it announces or as remain.  Used to reason about the cursor loop.
\<close>

fun fields_of :: "buffer \<Rightarrow> buffer list" where
  "fields_of [] = []"
| "fields_of (l # rest) = take (unat l) rest # fields_of (drop (unat l) rest)"

section \<open>Strings of the runtime\<close>

text \<open>
  A JavaScript string is a sequence of UTF-16 code units.  \<open>buf.toString ('utf8')\<close>
  decodes the bytes as UTF-8 and never throws: every ill-formed sequence becomes U+FFFD,
  and the byte that ended it is read again as the start of a new sequence.  The state is
  \<open>Ready\<close> between characters, or \<open>Pending cp n lo hi\<close> inside a multi-byte sequence:
  the code point so far, the number of continuation bytes still expected, and the range
  allowed for the next byte.
\<close>

type_synonym jsstring = "16 word list"

datatype utf8_state = Ready | Pending nat nat byte byte

definition utf8_lead :: "byte \<Rightarrow> utf8_state option" where
  "utf8_lead b =
     (if 0xC2 \<le> b \<and> b \<le> 0xDF then Some (Pending (unat (b AND 0x1F)) 1 0x80 0xBF)
      else if 0xE0 \<le> b \<and> b \<le> 0xEF then
        Some (Pending (unat (b AND 0x0F)) 2 (if b = 0xE0 then 0xA0 else 0x80)
                (if b = 0xED then 0x9F else 0xBF))
      else if 0xF0 \<le> b \<and> b \<le> 0xF4 then
        Some (Pending (unat (b AND 0x07)) 3 (if b = 0xF0 then 0x90 else 0x80)
                (if b = 0xF4 then 0x8F else 0xBF))
      else None)"

fun utf8_decode :: "utf8_state \<Rightarrow> buffer \<Rightarrow> nat list" where
  "utf8_decode Ready [] = []"
| "utf8_decode (Pending cp n lo hi) [] = [0xFFFD]"
| "utf8_decode Ready (b # bs) =
     (if b \<le> 0x7F then unat b # utf8_decode Ready bs
      else case utf8_lead b of
             Some st \<Rightarrow> utf8_decode st bs
           | None \<Rightarrow> 0xFFFD # utf8_decode Ready bs)"
| "utf8_decode (Pending cp n lo hi) (b # bs) =
     (if lo \<le> b \<and> b \<le> hi then
        (let cp' = cp * 64 + unat (b AND 0x3F)
         in if n = 1 then cp' # utf8_decode Ready bs
            else utf8_decode (Pending cp' (n - 1) 0x80 0xBF) bs)
      else 0xFFFD #
        (if b \<le> 0x7F then unat b # utf8_decode Ready bs
         else case utf8_lead b of
                Some st \<Rightarrow> utf8_decode st bs
              | None \<Rightarrow> 0xFFFD # utf8_decode Ready bs))"

definition utf16_units :: "nat \<Rightarrow> jsstring" where
  "utf16_units cp =
     (if cp < 0x10000 then [of_nat cp]
      else [of_nat (0xD800 + (cp - 0x10000) div 0x400),
            of_nat (0xDC00 + (cp - 0x10000) mod 0x400)])"

definition toString_utf8 :: "buffer \<Rightarrow> jsstring" where
  "toString_utf8 buf = concat (map utf16_units (utf8_decode Ready buf))"

text \<open>\<open>buf.toString ('hex')\<close>: two lowercase hexadecimal digits for each byte.\<close>

definition hex_digit :: "byte \<Rightarrow> 16 word" where
  "hex_digit n = (if n < 10 then 0x30 + ucast n else 0x61 + ucast (n - 10))"

definition toString_hex :: "buffer \<Rightarrow> jsstring" where
  "toString_hex buf = concat (map (\<lambda>b. [hex_digit (drop_bit 4 b), hex_digit (b AND 0x0F)]) buf)"

text \<open>A string literal of the source, all of whose characters are ASCII.\<close>

definition jsstring_of :: "string \<Rightarrow> jsstring" where
  "jsstring_of s = map of_char s"

section \<open>Numbers of the runtime\<close>

text \<open>
  \<open>parseInt (s, 10)\<close> skips leading white space, reads an optional sign and then the
  longest run of decimal digits; with no digit at all the result is \<open>NaN\<close>.  The
  numbers it returns are kept as exact integers: the code only compares them with the
  integers \<open>currentTime\<close> and \<open>0\<close>, and rounding to the nearest double keeps the order
  against an integer below \<open>2 ^ 53\<close>.  A comparison with \<open>NaN\<close> is false.
\<close>

datatype number = NaN | Num int

definition isWhiteSpace :: "16 word \<Rightarrow> bool" where
  "isWhiteSpace c =
     (c \<in> set [0x0009, 0x000A, 0x000B, 0x000C, 0x000D, 0x0020, 0x00A0, 0x1680,
               0x2028, 0x2029, 0x202F, 0x205F, 0x3000, 0xFEFF]
      \<or> (0x2000 \<le> c \<and> c \<le> 0x200A))"

definition isDigit :: "16 word \<Rightarrow> bool" where
  "isDigit c = (0x30 \<le> c \<and> c \<le> 0x39)"

definition digitsValue :: "jsstring \<Rightarrow> int" where
  "digitsValue z = foldl (\<lambda>acc c. 10 * acc + (uint c - 0x30)) 0 z"

definition parseInt :: "jsstring \<Rightarrow> number" where
  "parseInt string =
     (let S = dropWhile isWhiteSpace string;
          sign = (if S \<noteq> [] \<and> hd S = 0x2D then - 1 else 1);
          S' = (if S \<noteq> [] \<and> (hd S = 0x2B \<or> hd S = 0x2D) then tl S else S);
          Z = takeWhile isDigit S'
      in if Z = [] then NaN else Num (sign * digitsValue Z))"

definition number_le :: "number \<Rightarrow> int \<Rightarrow> bool" where
  "number_le x y = (case x of NaN \<Rightarrow> False | Num n \<Rightarrow> n \<le> y)"

section \<open>The commitment validator\<close>

definition UHRP_PROTOCOL_ADDRESS :: jsstring where
  "UHRP_PROTOCOL_ADDRESS = jsstring_of ''1UHRPYnMHPuQ5Tgb3AF8JXqwKkmZVy5hG''"

text \<open>\<open>TopicManager.isValidSHA256\<close>: the test of \<open>/^[a-f0-9]{64}$/\<close>.\<close>

definition isValidSHA256 :: "jsstring \<Rightarrow> bool" where
  "isValidSHA256 hash =
     (length hash = 64 \<and>
      list_all (\<lambda>c. (0x61 \<le> c \<and> c \<le> 0x66) \<or> (0x30 \<le> c \<and> c \<le> 0x39)) hash)"

text \<open>
  What can be thrown inside \<open>evaluateCommitment\<close>: a \<open>TypeError\<close> of the runtime (a
  method called on \<open>undefined\<close>, \<open>Array.from (undefined)\<close>), one of the function's own
  \<open>new Error (message)\<close>, or whatever the signature library throws.
\<close>

datatype thrown = TypeError | Error string | LibraryError

text \<open>
  The collaborators are not part of the code under study and are parameters of the model:
  \<open>isValidURL\<close> of \<open>utils/utils\<close>, and \<open>Hash.sha256\<close>, \<open>Signature.fromDER\<close> and
  \<open>PublicKey.verify\<close> of the SDK.  The last two may throw.
\<close>

record ('sig, 'key) collaborators =
  isValidURL :: "jsstring \<Rightarrow> bool"
  sha256 :: "buffer \<Rightarrow> buffer"
  fromDER :: "buffer \<Rightarrow> thrown + 'sig"
  verify :: "'key \<Rightarrow> buffer \<Rightarrow> 'sig \<Rightarrow> thrown + bool"

text \<open>
  The body of the \<open>try\<close> block.  \<open>Inl\<close> is a throw.  The logging at the top calls
  \<open>toString\<close> on \<open>fields[0]\<close>, \<open>fields[1]\<close>, \<open>fields[4]\<close>, \<open>fields[5]\<close> and
  \<open>fields[6]\<close>, which throws a \<open>TypeError\<close> when one of them is \<open>undefined\<close>;
  \<open>fields[2]\<close> and \<open>fields[7]\<close> are only printed.  \<open>fields[7]\<close> is first used by
  \<open>Array.from\<close>, after the message has been built and hashed.  \<open>dateNow\<close> is the value
  of \<open>Date.now ()\<close>, in milliseconds.
\<close>

definition evaluateCommitment_try ::
  "('sig, 'key) collaborators \<Rightarrow> int \<Rightarrow> buffer \<Rightarrow> 'key \<Rightarrow> thrown + bool" where
  "evaluateCommitment_try sdk dateNow outputScript pubKey =
     (let fields = decodeOutputScript outputScript in
      if list_ex (\<lambda>k. length fields \<le> k) [0, 1, 4, 5, 6] then Inl TypeError
      else if toString_utf8 (fields ! 0) \<noteq> UHRP_PROTOCOL_ADDRESS then
        Inl (Error ''Invalid UHRP protocol address.'')
      else let hash = toString_hex (fields ! 2) in
      if \<not> isValidSHA256 hash then Inl (Error ''Invalid SHA256 hash.'')
      else let url = toString_utf8 (fields ! 4) in
      if \<not> isValidURL sdk url then Inl (Error ''Invalid URL.'')
      else let expiryTime = parseInt (toString_utf8 (fields ! 5));
               currentTime = dateNow div 1000 in
      if number_le expiryTime currentTime then Inl (Error ''Invalid or expired timestamp.'')
      else let fileSize = parseInt (toString_utf8 (fields ! 6)) in
      if number_le fileSize 0 then Inl (Error ''Invalid file size.'')
      else let message = concat (take 7 fields);
               sha256Message = sha256 sdk message in
      if length fields \<le> 7 then Inl TypeError
      else case fromDER sdk (fields ! 7) of
             Inl e \<Rightarrow> Inl e
           | Inr signature \<Rightarrow>
               (case verify sdk pubKey sha256Message signature of
                  Inl e \<Rightarrow> Inl e
                | Inr isSignatureValid \<Rightarrow>
                    if \<not> isSignatureValid then Inl (Error ''Invalid signature.'')
                    else Inr True))"

text \<open>
  \<open>TopicManager.evaluateCommitment\<close>: the \<open>try\<close> block with its \<open>catch\<close>, which logs
  and returns \<open>false\<close> whatever was thrown.  The result type keeps a place for an
  exception that would reach the caller.
\<close>

definition evaluateCommitment ::
  "('sig, 'key) collaborators \<Rightarrow> int \<Rightarrow> buffer \<Rightarrow> 'key \<Rightarrow> thrown + bool" where
  "evaluateCommitment sdk dateNow outputScript pubKey =
     (case evaluateCommitment_try sdk dateNow outputScript pubKey of
        Inr result \<Rightarrow> Inr result
      | Inl error \<Rightarrow> Inr False)"

section \<open>Notions used to state the properties\<close>

text \<open>
  A buffer overruns when, at some cursor position the decoder reaches, the length byte
  announces more bytes than remain after it.
\<close>

fun overruns :: "buffer \<Rightarrow> bool" where
  "overruns [] = False"
| "overruns (l # rest) = (length rest < unat l \<or> overruns (drop (unat l) rest))"

text \<open>
  The signature verifier as the design describes it, to be compared with what
  \<open>evaluateCommitment\<close> does: (a) the canonical message is the concatenation of the
  message fields, in order, with nothing between them; (b) its digest is taken with
  SHA-256; (c) the signature bytes are parsed as DER, a failure to parse being a failed
  verification; (d) the digest is checked against the signature with the public key, and
  the boolean obtained is the result.
\<close>

definition SignatureVerifier_verify ::
  "('sig, 'key) collaborators \<Rightarrow> buffer list \<Rightarrow> buffer \<Rightarrow> 'key \<Rightarrow> bool" where
  "SignatureVerifier_verify sdk messageFields signatureBytes publicKey =
     (let message = concat messageFields;
          digest = sha256 sdk message
      in case fromDER sdk signatureBytes of
           Inl e \<Rightarrow> False
         | Inr signature \<Rightarrow>
             (case verify sdk publicKey digest signature of
                Inl e \<Rightarrow> False
              | Inr valid \<Rightarrow> valid))"

section \<open>An instance to run the model on\<close>

text \<open>
  The model is run on concrete tokens with the following stand-ins for the collaborators:
  a URL is valid when it starts with \<open>https://\<close>, the digest of a message is the sum of
  its bytes, a signature is the byte \<open>0x30\<close> followed by a body, and a key verifies the
  body made of the key followed by the digest.  No general statement below depends on
  them.  \<open>utf8_bytes\<close> is \<open>Buffer.from (s, 'utf8')\<close> for an ASCII literal, and
  \<open>example_sign\<close> follows \<open>signCommitment\<close> of the test suite: the signature of the
  digest of the concatenated fields.
\<close>

definition utf8_bytes :: "string \<Rightarrow> buffer" where
  "utf8_bytes s = map of_char s"

definition example_sdk :: "(buffer, buffer) collaborators" where
  "example_sdk =
     \<lparr> isValidURL = (\<lambda>url. take 8 url = jsstring_of ''https://''),
       sha256 = (\<lambda>message. [sum_list message]),
       fromDER = (\<lambda>der. case der of
                           [] \<Rightarrow> Inl LibraryError
                         | t # body \<Rightarrow> if t = 0x30 then Inr body else Inl LibraryError),
       verify = (\<lambda>key digest signature. Inr (signature = key @ digest)) \<rparr>"

definition example_key :: buffer where
  "example_key = [0x02, 0x79, 0xBE]"

definition example_sign :: "buffer list \<Rightarrow> buffer" where
  "example_sign messageFields = 0x30 # example_key @ sha256 example_sdk (concat messageFields)"

definition example_fields :: "string \<Rightarrow> string \<Rightarrow> buffer list" where
  "example_fields expiry fileSize =
     [utf8_bytes ''1UHRPYnMHPuQ5Tgb3AF8JXqwKkmZVy5hG'',
      utf8_bytes ''0279be'',
      replicate 32 0xAB,
      utf8_bytes ''advertise'',
      utf8_bytes ''https://valid.url'',
      utf8_bytes expiry,
      utf8_bytes fileSize]"

definition example_token :: "string \<Rightarrow> string \<Rightarrow> buffer" where
  "example_token expiry fileSize =
     createOutputScript
       (example_fields expiry fileSize @ [example_sign (example_fields expiry fileSize)])"

text \<open>
  The same token with the length byte of its last field raised to 255, far more than the
  bytes that follow it.
\<close>

definition example_overrun_token :: "string \<Rightarrow> string \<Rightarrow> buffer" where
  "example_overrun_token expiry fileSize =
     createOutputScript (example_fields expiry fileSize)
       @ 0xFF # example_sign (example_fields expiry fileSize)"

text \<open>The clock of the examples: \<open>Date.now ()\<close> is 1700000000500, so the current time is 1700000000.\<close>

definition example_now :: int where
  "example_now = 1700000000500"

section \<open>Properties of the decoder\<close>

declare decode_loop.simps [simp del]

lemma decode_loop_fields_of:
  "decode_loop buf i acc = acc @ fields_of (drop i buf)"
proof (induction buf i acc rule: decode_loop.induct)
  case (1 buf i acc)
  show ?case
  proof (cases "i < length buf")
    case True
    let ?len = "unat (buf ! i)"
    let ?field = "buffer_slice buf (i + 1) (i + 1 + ?len)"
    have split: "drop i buf = buf ! i # drop (Suc i) buf"
      using True by (simp add: Cons_nth_drop_Suc)
    have "decode_loop buf i acc = decode_loop buf (i + 1 + ?len) (acc @ [?field])"
      using True by (subst decode_loop.simps) (simp add: Let_def)
    also have "\<dots> = (acc @ [?field]) @ fields_of (drop (i + 1 + ?len) buf)"
      using "1.IH" [OF True refl refl] .
    also have "\<dots> = acc @ fields_of (drop i buf)"
      by (simp add: split buffer_slice_def add.commute)
    finally show ?thesis .
  next
    case False
    then show ?thesis by (subst decode_loop.simps) simp
  qed
qed

lemma decodeOutputScript_fields_of: "decodeOutputScript buf = fields_of buf"
  by (simp add: decodeOutputScript_def decode_loop_fields_of)

lemma decodeOutputScript_Nil: "decodeOutputScript [] = []"
  by (simp add: decodeOutputScript_fields_of)

lemma decodeOutputScript_Cons:
  "decodeOutputScript (l # rest) = take (unat l) rest # decodeOutputScript (drop (unat l) rest)"
  by (simp add: decodeOutputScript_fields_of)

lemma unat_length_byte: "n \<le> 255 \<Longrightarrow> unat (of_nat n :: byte) = n"
  by (simp add: unat_of_nat)

lemma createOutputScript_Nil: "createOutputScript [] = []"
  by (simp add: createOutputScript_def)

lemma createOutputScript_Cons:
  "createOutputScript (f # fs) = of_nat (length f) # f @ createOutputScript fs"
  by (simp add: createOutputScript_def)

lemma createOutputScript_append:
  "createOutputScript (fs @ gs) = createOutputScript fs @ createOutputScript gs"
  by (simp add: createOutputScript_def)

lemma decode_createOutputScript_append:
  "\<forall>f \<in> set fs. length f \<le> 255 \<Longrightarrow>
   decodeOutputScript (createOutputScript fs @ buf) = fs @ decodeOutputScript buf"
proof (induction fs)
  case Nil
  then show ?case by (simp add: createOutputScript_Nil)
next
  case (Cons f fs)
  then have len: "unat (of_nat (length f) :: byte) = length f"
    by (simp add: unat_length_byte)
  show ?case
    using Cons by (simp add: createOutputScript_Cons decodeOutputScript_Cons len)
qed

lemma decode_createOutputScript:
  "\<forall>f \<in> set fs. length f \<le> 255 \<Longrightarrow> decodeOutputScript (createOutputScript fs) = fs"
  using decode_createOutputScript_append [of fs "[]"] by (simp add: decodeOutputScript_Nil)

section \<open>Properties of the runtime strings and of the verdict\<close>

lemma utf8_decode_ascii:
  "\<forall>b \<in> set bs. b \<le> 0x7F \<Longrightarrow> utf8_decode Ready bs = map unat bs"
  by (induction bs) auto

lemma utf16_units_byte: "utf16_units (unat (b :: byte)) = [ucast b]"
proof -
  have "unat b < 2 ^ LENGTH(8)" by (rule unsigned_less)
  then have "unat b < 0x10000" by simp
  then show ?thesis by (simp add: utf16_units_def)
qed

lemma toString_utf8_ascii:
  assumes "\<forall>b \<in> set bs. b \<le> 0x7F"
  shows "toString_utf8 bs = map ucast bs"
proof -
  have "concat (map utf16_units (map unat bs)) = map ucast bs"
    by (induction bs) (simp_all add: utf16_units_byte)
  then show ?thesis
    by (simp add: toString_utf8_def utf8_decode_ascii [OF assms])
qed

lemma evaluateCommitment_total:
  "evaluateCommitment sdk dateNow buf key = Inr True \<or>
   evaluateCommitment sdk dateNow buf key = Inr False"
  by (cases "evaluateCommitment_try sdk dateNow buf key") (auto simp: evaluateCommitment_def)

lemma logging_guard:
  "list_ex (\<lambda>k. length fs \<le> k) [0, 1, 4, 5, 6] \<longleftrightarrow> length fs < 7"
  by auto

lemma evaluateCommitment_try_Inr:
  "evaluateCommitment_try sdk dateNow buf key = Inr b \<Longrightarrow> b"
  by (auto simp: evaluateCommitment_try_def Let_def split: if_splits sum.splits)

lemma evaluateCommitment_True_iff:
  "evaluateCommitment sdk dateNow buf key = Inr True \<longleftrightarrow>
     (8 \<le> length (decodeOutputScript buf) \<and>
      toString_utf8 (decodeOutputScript buf ! 0) = UHRP_PROTOCOL_ADDRESS \<and>
      isValidSHA256 (toString_hex (decodeOutputScript buf ! 2)) \<and>
      isValidURL sdk (toString_utf8 (decodeOutputScript buf ! 4)) \<and>
      \<not> number_le (parseInt (toString_utf8 (decodeOutputScript buf ! 5))) (dateNow div 1000) \<and>
      \<not> number_le (parseInt (toString_utf8 (decodeOutputScript buf ! 6))) 0 \<and>
      (\<exists>signature. fromDER sdk (decodeOutputScript buf ! 7) = Inr signature \<and>
         verify sdk key (sha256 sdk (concat (take 7 (decodeOutputScript buf)))) signature = Inr True))"
  unfolding evaluateCommitment_def evaluateCommitment_try_def Let_def logging_guard
  by (auto split: sum.splits)

lemma ascii_units_le: "\<forall>u \<in> set (jsstring_of ''1UHRPYnMHPuQ5Tgb3AF8JXqwKkmZVy5hG''). u \<le> 0x7F"
  by (simp add: jsstring_of_def)

lemma ucast_byte_le:
  assumes "(ucast (b :: byte) :: 16 word) \<le> 0x7F"
  shows "b \<le> 0x7F"
proof -
  have "uint (ucast b :: 16 word) = uint b"
    by (rule uint_up_ucast) (simp add: is_up)
  then show ?thesis
    using assms by (simp add: word_le_def)
qed

lemma protocol_tag_bytes:
  assumes "map ucast f = UHRP_PROTOCOL_ADDRESS"
  shows "toString_utf8 f = UHRP_PROTOCOL_ADDRESS"
proof -
  have "\<forall>u \<in> set (map ucast f :: jsstring). u \<le> 0x7F"
    unfolding assms UHRP_PROTOCOL_ADDRESS_def by (rule ascii_units_le)
  then have "\<forall>b \<in> set f. b \<le> 0x7F"
    by (auto intro: ucast_byte_le)
  then show ?thesis
    using assms by (simp add: toString_utf8_ascii)
qed

lemma evaluateCommitment_not_True:
  "evaluateCommitment sdk dateNow buf key \<noteq> Inr True \<Longrightarrow>
   evaluateCommitment sdk dateNow buf key = Inr False"
  using evaluateCommitment_total [of sdk dateNow buf key] by blast

lemma length_toString_hex: "length (toString_hex f) = 2 * length f"
  by (induction f) (simp_all add: toString_hex_def)

lemma unat_byte_le: "unat (l :: byte) \<le> 255"
proof -
  have "unat l < 2 ^ LENGTH(8)" by (rule unsigned_less)
  then show ?thesis by simp
qed

lemma fields_of_short: "f \<in> set (fields_of buf) \<Longrightarrow> length f \<le> 255"
proof (induction buf arbitrary: f rule: fields_of.induct)
  case 1
  then show ?case by simp
next
  case (2 l rest)
  then show ?case
    using unat_byte_le [of l] by auto
qed

lemma evaluateCommitment_cong:
  "decodeOutputScript buf1 = decodeOutputScript buf2 \<Longrightarrow>
   evaluateCommitment sdk dateNow buf1 key = evaluateCommitment sdk dateNow buf2 key"
  by (simp add: evaluateCommitment_def evaluateCommitment_try_def)

lemma overruns_shape:
  "overruns buf \<Longrightarrow>
   \<exists>fs l rest. buf = createOutputScript fs @ l # rest \<and> (\<forall>f \<in> set fs. length f \<le> 255) \<and>
     length rest < unat l"
proof (induction buf rule: overruns.induct)
  case 1
  then show ?case by simp
next
  case (2 l rest)
  show ?case
  proof (cases "length rest < unat l")
    case True
    then have "l # rest = createOutputScript [] @ l # rest \<and> (\<forall>f \<in> set []. length f \<le> 255) \<and>
        length rest < unat l"
      by (simp add: createOutputScript_Nil)
    then show ?thesis by blast
  next
    case False
    with 2 obtain fs l' rest' where
      tail: "drop (unat l) rest = createOutputScript fs @ l' # rest'"
      and short: "\<forall>f \<in> set fs. length f \<le> 255" and over: "length rest' < unat l'"
      by auto
    let ?f = "take (unat l) rest"
    have len: "length ?f = unat l" using False by simp
    have prefix: "(of_nat (unat l) :: byte) = l" by simp
    have "l # rest = l # ?f @ drop (unat l) rest" by simp
    also have "\<dots> = createOutputScript (?f # fs) @ l' # rest'"
      by (simp only: createOutputScript_Cons len tail prefix append_Cons append_assoc)
    finally have "l # rest = createOutputScript (?f # fs) @ l' # rest'" .
    moreover have "\<forall>f \<in> set (?f # fs). length f \<le> 255"
      using short unat_byte_le [of l] by (simp add: len del: length_take)
    ultimately show ?thesis using over by blast
  qed
qed

lemma overruns_createOutputScript_append:
  "\<forall>f \<in> set fs. length f \<le> 255 \<Longrightarrow> overruns (createOutputScript fs @ buf) = overruns buf"
proof (induction fs)
  case Nil
  then show ?case by (simp add: createOutputScript_Nil)
next
  case (Cons f fs)
  then have len: "unat (of_nat (length f) :: byte) = length f"
    by (simp add: unat_length_byte)
  show ?case
    using Cons by (simp add: createOutputScript_Cons len)
qed

lemma take_seven:
  assumes "7 \<le> length fs"
  shows "take 7 fs = [fs ! 0, fs ! 1, fs ! 2, fs ! 3, fs ! 4, fs ! 5, fs ! 6]"
proof (rule nth_equalityI)
  show "length (take 7 fs) = length [fs ! 0, fs ! 1, fs ! 2, fs ! 3, fs ! 4, fs ! 5, fs ! 6]"
    using assms by simp
next
  fix i assume "i < length (take 7 fs)"
  then have "i < 7" by simp
  then consider "i = 0" | "i = 1" | "i = 2" | "i = 3" | "i = 4" | "i = 5" | "i = 6"
    by linarith
  then show "take 7 fs ! i = [fs ! 0, fs ! 1, fs ! 2, fs ! 3, fs ! 4, fs ! 5, fs ! 6] ! i"
    by cases simp_all
qed

lemma hex_digit_range:
  assumes "n < 16"
  shows "(0x61 \<le> hex_digit n \<and> hex_digit n \<le> 0x66) \<or> (0x30 \<le> hex_digit n \<and> hex_digit n \<le> 0x39)"
proof -
  have "unat n < 16" using assms by (simp add: word_less_nat_alt)
  moreover have "n = of_nat (unat n)" by simp
  ultimately obtain k :: nat where k: "k < 16" "n = of_nat k" by blast
  from k(1) consider "k = 0" | "k = 1" | "k = 2" | "k = 3" | "k = 4" | "k = 5" | "k = 6" | "k = 7"
    | "k = 8" | "k = 9" | "k = 10" | "k = 11" | "k = 12" | "k = 13" | "k = 14" | "k = 15"
    by atomize_elim arith
  then show ?thesis
    by cases (simp_all add: k(2) hex_digit_def)
qed


lemma low_nibble_less: "(b :: byte) AND 0x0F < 16"
proof -
  have "b AND 0x0F \<le> 0x0F" by (rule word_and_le1)
  then show ?thesis by (simp add: word_le_nat_alt word_less_nat_alt)
qed

lemma high_nibble_less: "drop_bit 4 (b :: byte) < 16"
proof -
  have "unat b < 2 ^ LENGTH(8)" by (rule unsigned_less)
  then have "unat b div 16 < 16" by simp
  moreover have "unat (drop_bit 4 b) = drop_bit 4 (unat b)" by (rule unat_drop_bit_eq)
  ultimately show ?thesis by (simp add: word_less_nat_alt drop_bit_eq_div)
qed

lemma isValidSHA256_toString_hex: "isValidSHA256 (toString_hex f) \<longleftrightarrow> length f = 32"
proof -
  have "list_all (\<lambda>c. (0x61 \<le> c \<and> c \<le> 0x66) \<or> (0x30 \<le> c \<and> c \<le> 0x39)) (toString_hex f)"
    by (induction f) (simp_all add: toString_hex_def hex_digit_range low_nibble_less high_nibble_less)
  then show ?thesis
    by (auto simp: isValidSHA256_def length_toString_hex)
qed

section \<open>Facts about the example instance\<close>

lemma toString_utf8_bytes:
  assumes "\<forall>c \<in> set s. (of_char c :: byte) \<le> 0x7F"
  shows "toString_utf8 (utf8_bytes s) = jsstring_of s"
proof -
  have "ucast (of_char c :: byte) = (of_char c :: 16 word)" for c
    by (simp add: of_char_def)  
  then show ?thesis using assms
    by (simp add: toString_utf8_ascii utf8_bytes_def jsstring_of_def)
qed

lemma example_decode:
  "length e \<le> 255 \<Longrightarrow> length s \<le> 255 \<Longrightarrow>
   decodeOutputScript (example_token e s) =
     example_fields e s @ [example_sign (example_fields e s)]"
  unfolding example_token_def
  by (rule decode_createOutputScript)
     (simp add: example_fields_def example_sign_def example_key_def example_sdk_def utf8_bytes_def)

lemma example_length: "length (example_fields e s @ [g]) = 8"
  by (simp add: example_fields_def)

lemma example_tag: "map ucast ((example_fields e s @ [g]) ! 0) = UHRP_PROTOCOL_ADDRESS"
  by (simp add: example_fields_def utf8_bytes_def UHRP_PROTOCOL_ADDRESS_def jsstring_of_def)

lemma example_hash_value: "isValidSHA256 (toString_hex (replicate 32 0xAB))"
  by code_simp

lemma example_hash: "isValidSHA256 (toString_hex ((example_fields e s @ [g]) ! 2))"
  using example_hash_value by (simp add: example_fields_def)

lemma example_url: "isValidURL example_sdk (toString_utf8 ((example_fields e s @ [g]) ! 4))"
  by (simp add: example_fields_def example_sdk_def toString_utf8_bytes jsstring_of_def)

lemma example_expiry: "(example_fields e s @ [g]) ! 5 = utf8_bytes e"
  by (simp add: example_fields_def)

lemma example_fileSize: "(example_fields e s @ [g]) ! 6 = utf8_bytes s"
  by (simp add: example_fields_def)

lemma example_signature:
  "fromDER example_sdk ((example_fields e s @ [example_sign m]) ! 7) =
     Inr (example_key @ sha256 example_sdk (concat m))"
  by (simp add: example_fields_def example_sdk_def example_sign_def)

lemma example_message: "take 7 (example_fields e s @ [g]) = example_fields e s"
  by (simp add: example_fields_def)

lemma example_verify:
  "verify example_sdk example_key (sha256 example_sdk m) (example_key @ sha256 example_sdk m) = Inr True"
  by (simp add: example_sdk_def)

lemma parseInt_1700000001: "parseInt (toString_utf8 (utf8_bytes ''1700000001'')) = Num 1700000001"
  by (simp add: toString_utf8_bytes)
     (simp add: parseInt_def jsstring_of_def isWhiteSpace_def isDigit_def digitsValue_def)

lemma parseInt_1024: "parseInt (toString_utf8 (utf8_bytes ''1024'')) = Num 1024"
  by (simp add: toString_utf8_bytes)
     (simp add: parseInt_def jsstring_of_def isWhiteSpace_def isDigit_def digitsValue_def)

lemma parseInt_1700000000: "parseInt (toString_utf8 (utf8_bytes ''1700000000'')) = Num 1700000000"
  by (simp add: toString_utf8_bytes)
     (simp add: parseInt_def jsstring_of_def isWhiteSpace_def isDigit_def digitsValue_def)

lemma parseInt_abc: "parseInt (toString_utf8 (utf8_bytes ''abc'')) = NaN"
  by (simp add: toString_utf8_bytes)
     (simp add: parseInt_def jsstring_of_def isWhiteSpace_def isDigit_def digitsValue_def)

lemma parseInt_xyz: "parseInt (toString_utf8 (utf8_bytes ''xyz'')) = NaN"
  by (simp add: toString_utf8_bytes)
     (simp add: parseInt_def jsstring_of_def isWhiteSpace_def isDigit_def digitsValue_def)

lemma example_token_checks:
  assumes "length e \<le> 255" and "length s \<le> 255"
    and "fs = decodeOutputScript (example_token e s)"
  shows "8 \<le> length fs"
    and "map ucast (fs ! 0) = UHRP_PROTOCOL_ADDRESS"
    and "isValidSHA256 (toString_hex (fs ! 2))"
    and "isValidURL example_sdk (toString_utf8 (fs ! 4))"
    and "fs ! 5 = utf8_bytes e"
    and "fs ! 6 = utf8_bytes s"
    and "fromDER example_sdk (fs ! 7) =
           Inr (example_key @ sha256 example_sdk (concat (example_fields e s)))"
    and "verify example_sdk example_key (sha256 example_sdk (concat (take 7 fs)))
           (example_key @ sha256 example_sdk (concat (example_fields e s))) = Inr True"
proof -
  have dec: "fs = example_fields e s @ [example_sign (example_fields e s)]"
    unfolding assms(3) using assms(1,2) by (rule example_decode)
  show "8 \<le> length fs" unfolding dec example_length by simp
  show "map ucast (fs ! 0) = UHRP_PROTOCOL_ADDRESS" unfolding dec by (rule example_tag)
  show "isValidSHA256 (toString_hex (fs ! 2))" unfolding dec by (rule example_hash)
  show "isValidURL example_sdk (toString_utf8 (fs ! 4))" unfolding dec by (rule example_url)
  show "fs ! 5 = utf8_bytes e" unfolding dec by (rule example_expiry)
  show "fs ! 6 = utf8_bytes s" unfolding dec by (rule example_fileSize)
  show "fromDER example_sdk (fs ! 7) =
           Inr (example_key @ sha256 example_sdk (concat (example_fields e s)))"
    unfolding dec by (rule example_signature)
  show "verify example_sdk example_key (sha256 example_sdk (concat (take 7 fs)))
           (example_key @ sha256 example_sdk (concat (example_fields e s))) = Inr True"
    unfolding dec example_message by (rule example_verify)
qed

lemma example_overrun_decode:
  assumes "length e \<le> 255" and "length s \<le> 255"
  shows "overruns (example_overrun_token e s)"
    and "decodeOutputScript (example_overrun_token e s) = decodeOutputScript (example_token e s)"
proof -
  have short: "\<forall>f \<in> set (example_fields e s). length f \<le> 255"
    using assms by (simp add: example_fields_def utf8_bytes_def)
  have sig: "length (example_sign (example_fields e s)) = 5"
    by (simp add: example_sign_def example_key_def example_sdk_def)
  show "overruns (example_overrun_token e s)"
    unfolding example_overrun_token_def
    by (simp add: overruns_createOutputScript_append [OF short] sig)
  have "decodeOutputScript (example_overrun_token e s)
          = example_fields e s @ [example_sign (example_fields e s)]"
    unfolding example_overrun_token_def
    by (simp add: decode_createOutputScript_append [OF short] decodeOutputScript_Cons
          decodeOutputScript_Nil sig)
  then show "decodeOutputScript (example_overrun_token e s) = decodeOutputScript (example_token e s)"
    using assms by (simp add: example_decode)
qed

lemma example_token_accepted:
  "evaluateCommitment example_sdk example_now (example_token ''1700000001'' ''1024'') example_key
     = Inr True"
proof -
  note b = example_token_checks [of "''1700000001''" "''1024''", OF _ _ refl, simplified]
  have "\<exists>signature.
          fromDER example_sdk (decodeOutputScript (example_token ''1700000001'' ''1024'') ! 7)
            = Inr signature \<and>
          verify example_sdk example_key
            (sha256 example_sdk (concat (take 7 (decodeOutputScript (example_token ''1700000001'' ''1024'')))))
            signature = Inr True"
    using b(7) b(8) by blast
  then show ?thesis
    unfolding evaluateCommitment_True_iff
    using b(1) b(3) b(4) protocol_tag_bytes [OF b(2)]
    by (simp add: b(5) b(6) parseInt_1700000001 parseInt_1024 number_le_def example_now_def)
qed

lemma example_token_accepted_if:
  assumes "length e \<le> 255" and "length s \<le> 255"
    and "\<not> number_le (parseInt (toString_utf8 (utf8_bytes e))) (example_now div 1000)"
    and "\<not> number_le (parseInt (toString_utf8 (utf8_bytes s))) 0"
  shows "evaluateCommitment example_sdk example_now (example_token e s) example_key = Inr True"
proof -
  note b = example_token_checks [OF assms(1,2) refl]
  have "\<exists>signature.
          fromDER example_sdk (decodeOutputScript (example_token e s) ! 7) = Inr signature \<and>
          verify example_sdk example_key
            (sha256 example_sdk (concat (take 7 (decodeOutputScript (example_token e s)))))
            signature = Inr True"
    using b(7) b(8) by blast
  then show ?thesis
    unfolding evaluateCommitment_True_iff
    using b(1) b(3) b(4) protocol_tag_bytes [OF b(2)] assms(3,4)
    by (simp add: b(5) b(6))
qed

lemma example_fields_with_signature:
  assumes "length g \<le> 255"
  shows "decodeOutputScript (createOutputScript (example_fields ''1700000001'' ''1024'' @ [g]))
           = example_fields ''1700000001'' ''1024'' @ [g]"
  by (rule decode_createOutputScript)
     (simp add: assms example_fields_def utf8_bytes_def)

lemma parseInt_0: "parseInt (toString_utf8 (utf8_bytes ''0'')) = Num 0"
  by (simp add: toString_utf8_bytes)
     (simp add: parseInt_def jsstring_of_def isWhiteSpace_def isDigit_def digitsValue_def)

section \<open>Round trip\<close>

text \<open>
  Claim C7.  Eight fields of 0 to 255 bytes each, encoded with one length byte in front of
  each field and concatenated in order, decode to exactly the same eight fields.
\<close>

theorem roundtrip_eight_fields:
  "length fs = 8 \<Longrightarrow> \<forall>f \<in> set fs. length f \<le> 255 \<Longrightarrow>
   decodeOutputScript (createOutputScript fs) = fs"
  by (rule decode_createOutputScript)

theorem roundtrip_eight_fields_witness:
  "decodeOutputScript (createOutputScript [[1, 2], [], [3], [4, 5, 6], replicate 255 7, [8], [], [9]])
     = [[1, 2], [], [3], [4, 5, 6], replicate 255 7, [8], [], [9]]"
  by (rule roundtrip_eight_fields) simp_all

section \<open>Length bytes that overrun the buffer\<close>

text \<open>
  Claim C2 says that a buffer in which a length byte announces more bytes than remain is
  refused by the decoder, and so rejected by \<open>evaluateCommitment\<close>.  The code has no such
  refusal: \<open>Buffer.slice\<close> clips the field to the bytes that remain, the loop ends, and
  the token is judged on the clipped field.  A signed token whose last length byte is
  raised to 255 overruns, decodes to the same eight fields and is accepted.
\<close>

theorem overrun_token_accepted_counterexample:
  "overruns (example_overrun_token ''1700000001'' ''1024'') \<and>
   decodeOutputScript (example_overrun_token ''1700000001'' ''1024'') =
     example_fields ''1700000001'' ''1024'' @ [example_sign (example_fields ''1700000001'' ''1024'')] \<and>
   evaluateCommitment example_sdk example_now (example_overrun_token ''1700000001'' ''1024'') example_key
     = Inr True"
proof -
  note o = example_overrun_decode [of "''1700000001''" "''1024''", simplified]
  have "evaluateCommitment example_sdk example_now (example_overrun_token ''1700000001'' ''1024'') example_key
          = evaluateCommitment example_sdk example_now (example_token ''1700000001'' ''1024'') example_key"
    using o(2) by (rule evaluateCommitment_cong)
  then show ?thesis
    using o by (simp add: example_token_accepted example_decode)
qed

text \<open>
  Claim C2, amended.  In such a buffer the overrunning length byte \<open>l\<close> is the last one
  read: before it stands the exact encoding of the fields \<open>fs\<close> decoded so far, after it
  the bytes \<open>rest\<close>, fewer than it announces.  Decoding does not fail, the last field is
  \<open>rest\<close>, and the verdict is the one of the buffer that encodes \<open>fs\<close> and \<open>rest\<close> with
  their true lengths.
\<close>

theorem overrun_is_clipped:
  assumes "overruns outputScript"
  shows "\<exists>fs l rest.
           outputScript = createOutputScript fs @ l # rest \<and> length rest < unat l \<and>
           decodeOutputScript outputScript = fs @ [rest] \<and>
           evaluateCommitment sdk dateNow outputScript pubKey =
             evaluateCommitment sdk dateNow (createOutputScript (fs @ [rest])) pubKey"
proof -
  from overruns_shape [OF assms] obtain fs l rest where
    shape: "outputScript = createOutputScript fs @ l # rest"
    and short: "\<forall>f \<in> set fs. length f \<le> 255" and over: "length rest < unat l"
    by blast
  have "decodeOutputScript (l # rest) = [rest]"
    using over by (simp add: decodeOutputScript_Cons decodeOutputScript_Nil)
  then have dec: "decodeOutputScript outputScript = fs @ [rest]"
    unfolding shape using short by (simp add: decode_createOutputScript_append)
  have "length rest \<le> 255"
    using over unat_byte_le [of l] by simp
  then have "decodeOutputScript (createOutputScript (fs @ [rest])) = fs @ [rest]"
    using short by (intro decode_createOutputScript) simp
  then have "evaluateCommitment sdk dateNow outputScript pubKey =
             evaluateCommitment sdk dateNow (createOutputScript (fs @ [rest])) pubKey"
    using dec by (intro evaluateCommitment_cong) simp
  with shape over dec show ?thesis by blast
qed

theorem overrun_is_clipped_witness:
  "\<exists>fs l rest.
     example_overrun_token ''1700000001'' ''1024'' = createOutputScript fs @ l # rest \<and>
     length rest < unat l \<and>
     decodeOutputScript (example_overrun_token ''1700000001'' ''1024'') = fs @ [rest] \<and>
     evaluateCommitment example_sdk example_now (example_overrun_token ''1700000001'' ''1024'') example_key =
       evaluateCommitment example_sdk example_now (createOutputScript (fs @ [rest])) example_key"
  by (rule overrun_is_clipped) (rule example_overrun_decode(1), simp_all)

section \<open>Acceptance of a valid commitment\<close>

text \<open>
  Claim C1.  When the buffer decodes to at least eight fields, field 0 is byte for byte the
  protocol tag, field 2 rendered as hex matches the 64-digit pattern, field 4 is a valid
  URL, field 5 parses to an integer greater than the current unix time, field 6 parses to
  an integer greater than zero, and the public key verifies the DER signature of field 7
  against the SHA-256 digest of the first seven fields concatenated, then
  \<open>evaluateCommitment\<close> returns \<open>true\<close>.
\<close>

theorem valid_commitment_accepted:
  assumes "8 \<le> length (decodeOutputScript outputScript)"
    and "map ucast (decodeOutputScript outputScript ! 0) = UHRP_PROTOCOL_ADDRESS"
    and "isValidSHA256 (toString_hex (decodeOutputScript outputScript ! 2))"
    and "isValidURL sdk (toString_utf8 (decodeOutputScript outputScript ! 4))"
    and "parseInt (toString_utf8 (decodeOutputScript outputScript ! 5)) = Num expiryTime"
    and "dateNow div 1000 < expiryTime"
    and "parseInt (toString_utf8 (decodeOutputScript outputScript ! 6)) = Num fileSize"
    and "0 < fileSize"
    and "fromDER sdk (decodeOutputScript outputScript ! 7) = Inr signature"
    and "verify sdk pubKey (sha256 sdk (concat (take 7 (decodeOutputScript outputScript)))) signature = Inr True"
  shows "evaluateCommitment sdk dateNow outputScript pubKey = Inr True"
  using assms by (simp add: evaluateCommitment_True_iff protocol_tag_bytes number_le_def)

theorem valid_commitment_accepted_witness:
  "evaluateCommitment example_sdk example_now (example_token ''1700000001'' ''1024'') example_key
     = Inr True"
proof (rule valid_commitment_accepted [where expiryTime = 1700000001 and fileSize = 1024
        and signature = "example_key @ sha256 example_sdk (concat (example_fields ''1700000001'' ''1024''))"])
  let ?fs = "decodeOutputScript (example_token ''1700000001'' ''1024'')"
  have dec: "?fs = example_fields ''1700000001'' ''1024'' @ [example_sign (example_fields ''1700000001'' ''1024'')]"
    by (rule example_decode) simp_all
  show "8 \<le> length ?fs" unfolding dec example_length by simp
  show "map ucast (?fs ! 0) = UHRP_PROTOCOL_ADDRESS" unfolding dec by (rule example_tag)
  show "isValidSHA256 (toString_hex (?fs ! 2))" unfolding dec by (rule example_hash)
  show "isValidURL example_sdk (toString_utf8 (?fs ! 4))" unfolding dec by (rule example_url)
  show "parseInt (toString_utf8 (?fs ! 5)) = Num 1700000001"
    unfolding dec example_expiry by (rule parseInt_1700000001)
  show "example_now div 1000 < 1700000001" by (simp add: example_now_def)
  show "parseInt (toString_utf8 (?fs ! 6)) = Num 1024"
    unfolding dec example_fileSize by (rule parseInt_1024)
  show "(0::int) < 1024" by simp
  show "fromDER example_sdk (?fs ! 7) = Inr (example_key @ sha256 example_sdk (concat (example_fields ''1700000001'' ''1024'')))"
    unfolding dec by (rule example_signature)
  show "verify example_sdk example_key (sha256 example_sdk (concat (take 7 ?fs)))
          (example_key @ sha256 example_sdk (concat (example_fields ''1700000001'' ''1024''))) = Inr True"
    unfolding dec example_message by (rule example_verify)
qed

section \<open>Failures become the verdict false\<close>

text \<open>
  Claim C5 says that \<open>evaluateCommitment\<close> always returns a boolean, lets no exception
  reach the caller, and turns every failure of decoding, validation, integer parsing, DER
  parsing or signature verification into \<open>false\<close>.  The last part does not hold as it
  stands: a signed token whose last length byte overruns the buffer and whose expiry field
  is the text \<open>abc\<close> is accepted.
\<close>

theorem undetected_failures_accepted_counterexample:
  "overruns (example_overrun_token ''abc'' ''1024'') \<and>
   parseInt (toString_utf8 (decodeOutputScript (example_overrun_token ''abc'' ''1024'') ! 5)) = NaN \<and>
   evaluateCommitment example_sdk example_now (example_overrun_token ''abc'' ''1024'') example_key
     = Inr True"
proof -
  note o = example_overrun_decode [of "''abc''" "''1024''", simplified]
  note c = example_token_checks [of "''abc''" "''1024''", OF _ _ refl, simplified]
  have nan: "parseInt (toString_utf8 (decodeOutputScript (example_overrun_token ''abc'' ''1024'') ! 5)) = NaN"
    unfolding o(2) by (simp add: c(5) parseInt_abc)
  have "evaluateCommitment example_sdk example_now (example_token ''abc'' ''1024'') example_key = Inr True"
    by (rule example_token_accepted_if) (simp_all add: parseInt_abc parseInt_1024 number_le_def)
  moreover have "evaluateCommitment example_sdk example_now (example_overrun_token ''abc'' ''1024'') example_key
          = evaluateCommitment example_sdk example_now (example_token ''abc'' ''1024'') example_key"
    using o(2) by (rule evaluateCommitment_cong)
  ultimately show ?thesis
    using o(1) nan by simp
qed

text \<open>
  Claim C5, amended.  For every buffer and key \<open>evaluateCommitment\<close> returns a boolean, no
  exception reaching the caller, and each failure the code detects gives \<open>false\<close>: fewer
  than eight decoded fields, a field 0 that is not the protocol tag, a field 2 whose hex
  rendering fails the pattern, a field 4 that is not a valid URL, a field 5 that parses to
  an integer not above the current time, a field 6 that parses to an integer not above zero,
  a field 7 on which the DER parser throws, and a signature whose verification throws or
  answers \<open>false\<close>.  The decoding loop always ends, its cursor moving forward by at least
  one byte.
\<close>

theorem detected_failures_give_false:
  "(\<exists>result. evaluateCommitment sdk dateNow outputScript pubKey = Inr result) \<and>
   (length (decodeOutputScript outputScript) < 8
    \<or> toString_utf8 (decodeOutputScript outputScript ! 0) \<noteq> UHRP_PROTOCOL_ADDRESS
    \<or> \<not> isValidSHA256 (toString_hex (decodeOutputScript outputScript ! 2))
    \<or> \<not> isValidURL sdk (toString_utf8 (decodeOutputScript outputScript ! 4))
    \<or> (\<exists>expiryTime. parseInt (toString_utf8 (decodeOutputScript outputScript ! 5)) = Num expiryTime
          \<and> expiryTime \<le> dateNow div 1000)
    \<or> (\<exists>fileSize. parseInt (toString_utf8 (decodeOutputScript outputScript ! 6)) = Num fileSize
          \<and> fileSize \<le> 0)
    \<or> (\<exists>e. fromDER sdk (decodeOutputScript outputScript ! 7) = Inl e)
    \<or> (\<exists>signature. fromDER sdk (decodeOutputScript outputScript ! 7) = Inr signature
          \<and> verify sdk pubKey (sha256 sdk (concat (take 7 (decodeOutputScript outputScript)))) signature
              \<noteq> Inr True)
    \<longrightarrow> evaluateCommitment sdk dateNow outputScript pubKey = Inr False)"
proof (intro conjI impI)
  show "\<exists>result. evaluateCommitment sdk dateNow outputScript pubKey = Inr result"
    using evaluateCommitment_total [of sdk dateNow outputScript pubKey] by blast
next
  assume "length (decodeOutputScript outputScript) < 8
    \<or> toString_utf8 (decodeOutputScript outputScript ! 0) \<noteq> UHRP_PROTOCOL_ADDRESS
    \<or> \<not> isValidSHA256 (toString_hex (decodeOutputScript outputScript ! 2))
    \<or> \<not> isValidURL sdk (toString_utf8 (decodeOutputScript outputScript ! 4))
    \<or> (\<exists>expiryTime. parseInt (toString_utf8 (decodeOutputScript outputScript ! 5)) = Num expiryTime
          \<and> expiryTime \<le> dateNow div 1000)
    \<or> (\<exists>fileSize. parseInt (toString_utf8 (decodeOutputScript outputScript ! 6)) = Num fileSize
          \<and> fileSize \<le> 0)
    \<or> (\<exists>e. fromDER sdk (decodeOutputScript outputScript ! 7) = Inl e)
    \<or> (\<exists>signature. fromDER sdk (decodeOutputScript outputScript ! 7) = Inr signature
          \<and> verify sdk pubKey (sha256 sdk (concat (take 7 (decodeOutputScript outputScript)))) signature
              \<noteq> Inr True)"
  then have "evaluateCommitment sdk dateNow outputScript pubKey \<noteq> Inr True"
    unfolding evaluateCommitment_True_iff by (auto simp: number_le_def)
  then show "evaluateCommitment sdk dateNow outputScript pubKey = Inr False"
    by (rule evaluateCommitment_not_True)
qed

theorem detected_failures_give_false_witness:
  "evaluateCommitment example_sdk example_now
     (createOutputScript (example_fields ''1700000001'' ''1024'' @ [[0x00, 0x01]])) example_key = Inr False \<and>
   evaluateCommitment example_sdk example_now
     (createOutputScript (example_fields ''1700000001'' ''1024'' @ [[0x30, 0x00]])) example_key = Inr False \<and>
   evaluateCommitment example_sdk example_now (example_token ''1700000001'' ''0'') example_key = Inr False"
proof (intro conjI)
  let ?malformed = "createOutputScript (example_fields ''1700000001'' ''1024'' @ [[0x00, 0x01]])"
  have "decodeOutputScript ?malformed = example_fields ''1700000001'' ''1024'' @ [[0x00, 0x01]]"
    by (rule example_fields_with_signature) simp
  then have "fromDER example_sdk (decodeOutputScript ?malformed ! 7) = Inl LibraryError"
    by (simp add: example_fields_def example_sdk_def)
  then have "\<exists>e. fromDER example_sdk (decodeOutputScript ?malformed ! 7) = Inl e"
    by blast
  then show "evaluateCommitment example_sdk example_now ?malformed example_key = Inr False"
    using detected_failures_give_false [of example_sdk example_now ?malformed example_key]
    by blast
next
  let ?forged = "createOutputScript (example_fields ''1700000001'' ''1024'' @ [[0x30, 0x00]])"
  have dec: "decodeOutputScript ?forged = example_fields ''1700000001'' ''1024'' @ [[0x30, 0x00]]"
    by (rule example_fields_with_signature) simp
  have "fromDER example_sdk (decodeOutputScript ?forged ! 7) = Inr [0x00]"
    unfolding dec by (simp add: example_fields_def example_sdk_def)
  moreover have "verify example_sdk example_key
      (sha256 example_sdk (concat (take 7 (decodeOutputScript ?forged)))) [0x00] \<noteq> Inr True"
    by (simp add: example_sdk_def example_key_def)
  ultimately have "\<exists>signature. fromDER example_sdk (decodeOutputScript ?forged ! 7) = Inr signature
          \<and> verify example_sdk example_key
               (sha256 example_sdk (concat (take 7 (decodeOutputScript ?forged)))) signature \<noteq> Inr True"
    by blast
  then show "evaluateCommitment example_sdk example_now ?forged example_key = Inr False"
    using detected_failures_give_false [of example_sdk example_now ?forged example_key]
    by blast
next
  let ?empty_file = "example_token ''1700000001'' ''0''"
  note c = example_token_checks [of "''1700000001''" "''0''", OF _ _ refl, simplified]
  have "parseInt (toString_utf8 (decodeOutputScript ?empty_file ! 6)) = Num 0 \<and> (0::int) \<le> 0"
    by (simp add: c(6) parseInt_0)
  then have "\<exists>fileSize. parseInt (toString_utf8 (decodeOutputScript ?empty_file ! 6)) = Num fileSize
          \<and> fileSize \<le> 0"
    by blast
  then show "evaluateCommitment example_sdk example_now ?empty_file example_key = Inr False"
    using detected_failures_give_false [of example_sdk example_now ?empty_file example_key]
    by blast
qed

text \<open>
  Claim C8.  The empty buffer decodes to no field, and a buffer that decodes to fewer than
  eight fields is rejected with \<open>false\<close>, not with an exception.
\<close>

theorem too_few_fields_rejected:
  "decodeOutputScript [] = [] \<and>
   (length (decodeOutputScript outputScript) < 8 \<longrightarrow>
      evaluateCommitment sdk dateNow outputScript pubKey = Inr False)"
proof (intro conjI impI)
  show "decodeOutputScript [] = []" by (rule decodeOutputScript_Nil)
next
  assume "length (decodeOutputScript outputScript) < 8"
  then have "evaluateCommitment sdk dateNow outputScript pubKey \<noteq> Inr True"
    by (simp add: evaluateCommitment_True_iff)
  then show "evaluateCommitment sdk dateNow outputScript pubKey = Inr False"
    by (rule evaluateCommitment_not_True)
qed

theorem too_few_fields_rejected_witness:
  "evaluateCommitment example_sdk example_now (createOutputScript (example_fields ''1700000001'' ''1024'')) example_key
     = Inr False"
proof -
  have "decodeOutputScript (createOutputScript (example_fields ''1700000001'' ''1024''))
          = example_fields ''1700000001'' ''1024''"
    by (rule decode_createOutputScript) (simp add: example_fields_def utf8_bytes_def)
  then have "length (decodeOutputScript (createOutputScript (example_fields ''1700000001'' ''1024''))) < 8"
    by (simp add: example_fields_def)
  then show ?thesis
    by (rule too_few_fields_rejected [THEN conjunct2, rule_format])
qed

section \<open>The hash field\<close>

text \<open>
  Claim C9.  When field 2, rendered as hex, does not match \<open>^[a-f0-9]{64}$\<close>, and in
  particular when it is not exactly 32 bytes long, \<open>evaluateCommitment\<close> returns
  \<open>false\<close>.
\<close>

theorem invalid_hash_rejected:
  assumes "2 < length (decodeOutputScript outputScript)"
    and "\<not> isValidSHA256 (toString_hex (decodeOutputScript outputScript ! 2))
         \<or> length (decodeOutputScript outputScript ! 2) \<noteq> 32"
  shows "evaluateCommitment sdk dateNow outputScript pubKey = Inr False"
proof -
  have "\<not> isValidSHA256 (toString_hex (decodeOutputScript outputScript ! 2))"
    using assms(2) by (auto simp: isValidSHA256_def length_toString_hex)
  then have "evaluateCommitment sdk dateNow outputScript pubKey \<noteq> Inr True"
    by (simp add: evaluateCommitment_True_iff)
  then show ?thesis
    by (rule evaluateCommitment_not_True)
qed

theorem invalid_hash_rejected_witness:
  "evaluateCommitment example_sdk example_now
     (createOutputScript ((example_fields ''1700000001'' ''1024'') [2 := utf8_bytes ''invalidhash'']
        @ [example_sign (example_fields ''1700000001'' ''1024'')]))
     example_key = Inr False"
proof (rule invalid_hash_rejected)
  let ?fs = "(example_fields ''1700000001'' ''1024'') [2 := utf8_bytes ''invalidhash'']
        @ [example_sign (example_fields ''1700000001'' ''1024'')]"
  have dec: "decodeOutputScript (createOutputScript ?fs) = ?fs"
    by (rule decode_createOutputScript)
       (simp add: example_fields_def example_sign_def example_key_def example_sdk_def utf8_bytes_def)
  show "2 < length (decodeOutputScript (createOutputScript ?fs))"
    unfolding dec by (simp add: example_fields_def)
  have "length (?fs ! 2) \<noteq> 32"
    by (simp add: example_fields_def utf8_bytes_def)
  then show "\<not> isValidSHA256 (toString_hex (decodeOutputScript (createOutputScript ?fs) ! 2))
         \<or> length (decodeOutputScript (createOutputScript ?fs) ! 2) \<noteq> 32"
    unfolding dec by (rule disjI2)
qed

section \<open>Only the first eight fields matter\<close>

text \<open>
  Claim C10.  Two buffers whose decoded field sequences agree on their first eight fields
  get the same verdict under the same collaborators, key and clock: fields after the
  eighth are ignored.
\<close>

theorem verdict_depends_on_first_eight:
  assumes "take 8 (decodeOutputScript outputScript1) = take 8 (decodeOutputScript outputScript2)"
  shows "evaluateCommitment sdk dateNow outputScript1 pubKey =
         evaluateCommitment sdk dateNow outputScript2 pubKey"
proof -
  let ?fs1 = "decodeOutputScript outputScript1" and ?fs2 = "decodeOutputScript outputScript2"
  have len: "8 \<le> length ?fs1 \<longleftrightarrow> 8 \<le> length ?fs2"
    using arg_cong [OF assms, of length] by (simp add: min_def split: if_splits)
  have nth: "?fs1 ! k = ?fs2 ! k" if "k < 8" for k
    using arg_cong [OF assms, of "\<lambda>xs. xs ! k"] that by simp
  have msg: "take 7 ?fs1 = take 7 ?fs2"
    using arg_cong [OF assms, of "take 7"] by simp
  have "evaluateCommitment sdk dateNow outputScript1 pubKey = Inr True \<longleftrightarrow>
        evaluateCommitment sdk dateNow outputScript2 pubKey = Inr True"
    unfolding evaluateCommitment_True_iff by (simp add: len nth msg)
  then show ?thesis
    using evaluateCommitment_total [of sdk dateNow outputScript1 pubKey]
          evaluateCommitment_total [of sdk dateNow outputScript2 pubKey]
    by auto
qed

theorem verdict_depends_on_first_eight_witness:
  "evaluateCommitment example_sdk example_now (example_token ''1700000001'' ''1024'') example_key =
   evaluateCommitment example_sdk example_now (example_token ''1700000001'' ''1024'' @ [2, 0xCA, 0xFE]) example_key"
proof (rule verdict_depends_on_first_eight)
  let ?fs = "example_fields ''1700000001'' ''1024'' @ [example_sign (example_fields ''1700000001'' ''1024'')]"
  have small: "\<forall>f \<in> set ?fs. length f \<le> 255"
    by (simp add: example_fields_def example_sign_def example_key_def example_sdk_def utf8_bytes_def)
  have d1: "decodeOutputScript (example_token ''1700000001'' ''1024'') = ?fs"
    unfolding example_token_def using small by (rule decode_createOutputScript)
  have "decodeOutputScript (example_token ''1700000001'' ''1024'' @ [2, 0xCA, 0xFE])
          = ?fs @ decodeOutputScript [2, 0xCA, 0xFE]"
    unfolding example_token_def using small by (rule decode_createOutputScript_append)
  then have d2: "decodeOutputScript (example_token ''1700000001'' ''1024'' @ [2, 0xCA, 0xFE])
          = ?fs @ [[0xCA, 0xFE]]"
    by (simp add: decodeOutputScript_Cons decodeOutputScript_Nil)
  show "take 8 (decodeOutputScript (example_token ''1700000001'' ''1024'')) =
        take 8 (decodeOutputScript (example_token ''1700000001'' ''1024'' @ [2, 0xCA, 0xFE]))"
    unfolding d1 d2 by (simp add: example_fields_def)
qed

section \<open>The signature check\<close>

text \<open>
  Claim C4.  Once the six earlier checks have passed, the verdict is exactly the result of
  the signature verifier of the design on the first seven decoded fields, in their order,
  and the eighth as signature: the message is their plain concatenation, it is hashed with
  SHA-256, field 7 is parsed as DER (a failure to parse giving \<open>false\<close>), and the key's
  verification of the digest against the signature decides.
\<close>

theorem signature_check_construction:
  assumes "fs = decodeOutputScript outputScript"
    and "8 \<le> length fs"
    and "toString_utf8 (fs ! 0) = UHRP_PROTOCOL_ADDRESS"
    and "isValidSHA256 (toString_hex (fs ! 2))"
    and "isValidURL sdk (toString_utf8 (fs ! 4))"
    and "\<not> number_le (parseInt (toString_utf8 (fs ! 5))) (dateNow div 1000)"
    and "\<not> number_le (parseInt (toString_utf8 (fs ! 6))) 0"
  shows "evaluateCommitment sdk dateNow outputScript pubKey =
           Inr (SignatureVerifier_verify sdk
                  [fs ! 0, fs ! 1, fs ! 2, fs ! 3, fs ! 4, fs ! 5, fs ! 6] (fs ! 7) pubKey)"
proof -
  have msg: "concat [fs ! 0, fs ! 1, fs ! 2, fs ! 3, fs ! 4, fs ! 5, fs ! 6] = concat (take 7 fs)"
    using assms(2) by (simp only: take_seven [of fs])
  have "evaluateCommitment sdk dateNow outputScript pubKey = Inr True \<longleftrightarrow>
        SignatureVerifier_verify sdk
          [fs ! 0, fs ! 1, fs ! 2, fs ! 3, fs ! 4, fs ! 5, fs ! 6] (fs ! 7) pubKey"
    unfolding evaluateCommitment_True_iff SignatureVerifier_verify_def Let_def msg
    using assms by (auto split: sum.splits)
  then show ?thesis
    using evaluateCommitment_total [of sdk dateNow outputScript pubKey] by auto
qed

theorem signature_check_construction_witness:
  "evaluateCommitment example_sdk example_now (example_token ''1700000001'' ''1024'') example_key =
     Inr (SignatureVerifier_verify example_sdk (example_fields ''1700000001'' ''1024'')
            (example_sign (example_fields ''1700000001'' ''1024'')) example_key)"
proof -
  let ?fs = "decodeOutputScript (example_token ''1700000001'' ''1024'')"
  note b = example_token_checks [of "''1700000001''" "''1024''", OF _ _ refl, simplified]
  have dec: "?fs = example_fields ''1700000001'' ''1024'' @ [example_sign (example_fields ''1700000001'' ''1024'')]"
    by (rule example_decode) simp_all
  have "evaluateCommitment example_sdk example_now (example_token ''1700000001'' ''1024'') example_key =
          Inr (SignatureVerifier_verify example_sdk
                 [?fs ! 0, ?fs ! 1, ?fs ! 2, ?fs ! 3, ?fs ! 4, ?fs ! 5, ?fs ! 6] (?fs ! 7) example_key)"
  proof (rule signature_check_construction [OF refl b(1) protocol_tag_bytes [OF b(2)] b(3) b(4)])
    show "\<not> number_le (parseInt (toString_utf8 (?fs ! 5))) (example_now div 1000)"
      by (simp add: b(5) parseInt_1700000001 number_le_def example_now_def)
    show "\<not> number_le (parseInt (toString_utf8 (?fs ! 6))) 0"
      by (simp add: b(6) parseInt_1024 number_le_def)
  qed
  also have "[?fs ! 0, ?fs ! 1, ?fs ! 2, ?fs ! 3, ?fs ! 4, ?fs ! 5, ?fs ! 6]
               = example_fields ''1700000001'' ''1024''"
    unfolding dec by (simp add: example_fields_def)
  also have "?fs ! 7 = example_sign (example_fields ''1700000001'' ''1024'')"
    unfolding dec by (simp add: example_fields_def)
  finally show ?thesis .
qed

section \<open>The expiry comparison\<close>

text \<open>
  Claim C6.  The comparison is exclusive: a token whose field 5 parses to exactly the
  current unix time is rejected, and a token that passes every other check and whose
  field 5 parses to the current time plus one is accepted.
\<close>

theorem expiry_boundary:
  "(5 < length (decodeOutputScript expired) \<and>
    parseInt (toString_utf8 (decodeOutputScript expired ! 5)) = Num (dateNow div 1000)
      \<longrightarrow> evaluateCommitment sdk dateNow expired pubKey = Inr False) \<and>
   (8 \<le> length (decodeOutputScript outputScript) \<and>
    map ucast (decodeOutputScript outputScript ! 0) = UHRP_PROTOCOL_ADDRESS \<and>
    isValidSHA256 (toString_hex (decodeOutputScript outputScript ! 2)) \<and>
    isValidURL sdk (toString_utf8 (decodeOutputScript outputScript ! 4)) \<and>
    parseInt (toString_utf8 (decodeOutputScript outputScript ! 5)) = Num (dateNow div 1000 + 1) \<and>
    parseInt (toString_utf8 (decodeOutputScript outputScript ! 6)) = Num fileSize \<and>
    0 < fileSize \<and>
    fromDER sdk (decodeOutputScript outputScript ! 7) = Inr signature \<and>
    verify sdk pubKey (sha256 sdk (concat (take 7 (decodeOutputScript outputScript)))) signature = Inr True
      \<longrightarrow> evaluateCommitment sdk dateNow outputScript pubKey = Inr True)"
proof (intro conjI impI)
  assume "5 < length (decodeOutputScript expired) \<and>
    parseInt (toString_utf8 (decodeOutputScript expired ! 5)) = Num (dateNow div 1000)"
  then have "evaluateCommitment sdk dateNow expired pubKey \<noteq> Inr True"
    by (simp add: evaluateCommitment_True_iff number_le_def)
  then show "evaluateCommitment sdk dateNow expired pubKey = Inr False"
    by (rule evaluateCommitment_not_True)
next
  assume "8 \<le> length (decodeOutputScript outputScript) \<and>
    map ucast (decodeOutputScript outputScript ! 0) = UHRP_PROTOCOL_ADDRESS \<and>
    isValidSHA256 (toString_hex (decodeOutputScript outputScript ! 2)) \<and>
    isValidURL sdk (toString_utf8 (decodeOutputScript outputScript ! 4)) \<and>
    parseInt (toString_utf8 (decodeOutputScript outputScript ! 5)) = Num (dateNow div 1000 + 1) \<and>
    parseInt (toString_utf8 (decodeOutputScript outputScript ! 6)) = Num fileSize \<and>
    0 < fileSize \<and>
    fromDER sdk (decodeOutputScript outputScript ! 7) = Inr signature \<and>
    verify sdk pubKey (sha256 sdk (concat (take 7 (decodeOutputScript outputScript)))) signature = Inr True"
  then show "evaluateCommitment sdk dateNow outputScript pubKey = Inr True"
    by (simp add: evaluateCommitment_True_iff protocol_tag_bytes number_le_def)
qed

theorem expiry_boundary_witness:
  "evaluateCommitment example_sdk example_now (example_token ''1700000000'' ''1024'') example_key
     = Inr False \<and>
   evaluateCommitment example_sdk example_now (example_token ''1700000001'' ''1024'') example_key
     = Inr True"
proof -
  note a = example_token_checks [of "''1700000000''" "''1024''", OF _ _ refl, simplified]
  note b = example_token_checks [of "''1700000001''" "''1024''", OF _ _ refl, simplified]
  have now: "example_now div 1000 = 1700000000"
    by (simp add: example_now_def)
  have "5 < length (decodeOutputScript (example_token ''1700000000'' ''1024'')) \<and>
        parseInt (toString_utf8 (decodeOutputScript (example_token ''1700000000'' ''1024'') ! 5))
          = Num (example_now div 1000)"
    using a(1) by (simp add: a(5) parseInt_1700000000 now)
  moreover have "parseInt (toString_utf8 (decodeOutputScript (example_token ''1700000001'' ''1024'') ! 5))
          = Num (example_now div 1000 + 1)"
    by (simp add: b(5) parseInt_1700000001 now)
  moreover have "parseInt (toString_utf8 (decodeOutputScript (example_token ''1700000001'' ''1024'') ! 6))
          = Num 1024"
    by (simp add: b(6) parseInt_1024)
  ultimately show ?thesis
    using b(1) b(2) b(3) b(4) b(7) b(8)
      expiry_boundary [where expired = "example_token ''1700000000'' ''1024''"
        and outputScript = "example_token ''1700000001'' ''1024''"
        and dateNow = example_now and sdk = example_sdk and pubKey = example_key
        and fileSize = 1024
        and signature = "example_key @ sha256 example_sdk (concat (example_fields ''1700000001'' ''1024''))"]
    by simp
qed

section \<open>Fields that are not numbers\<close>

text \<open>
  Claim C3 says that a token whose field 5 or field 6 does not parse as an integer is
  rejected.  The code does not do that: \<open>parseInt\<close> returns \<open>NaN\<close>, both
  \<open>NaN <= currentTime\<close> and \<open>NaN <= 0\<close> are false, so neither
  \<open>Invalid or expired timestamp.\<close> nor \<open>Invalid file size.\<close> is thrown, and a token
  that passes the other checks is accepted.
\<close>

theorem nonnumeric_expiry_and_size_accepted:
  assumes "8 \<le> length (decodeOutputScript outputScript)"
    and "map ucast (decodeOutputScript outputScript ! 0) = UHRP_PROTOCOL_ADDRESS"
    and "isValidSHA256 (toString_hex (decodeOutputScript outputScript ! 2))"
    and "isValidURL sdk (toString_utf8 (decodeOutputScript outputScript ! 4))"
    and "parseInt (toString_utf8 (decodeOutputScript outputScript ! 5)) = NaN"
    and "parseInt (toString_utf8 (decodeOutputScript outputScript ! 6)) = NaN"
    and "fromDER sdk (decodeOutputScript outputScript ! 7) = Inr signature"
    and "verify sdk pubKey (sha256 sdk (concat (take 7 (decodeOutputScript outputScript)))) signature = Inr True"
  shows "evaluateCommitment sdk dateNow outputScript pubKey = Inr True"
  using assms by (simp add: evaluateCommitment_True_iff protocol_tag_bytes number_le_def)


theorem nonnumeric_expiry_and_size_accepted_witness:
  "evaluateCommitment example_sdk example_now (example_token ''abc'' ''xyz'') example_key = Inr True"
proof -
  note c = example_token_checks [of "''abc''" "''xyz''", OF _ _ refl, simplified]
  show ?thesis
    by (rule nonnumeric_expiry_and_size_accepted [OF c(1) c(2) c(3) c(4) _ _ c(7) c(8)])
       (simp_all only: c(5) c(6) parseInt_abc parseInt_xyz)
qed

end
